theory Spec2Isabelle
  imports Main "HOL-Library.Word"
begin

section \<open>The peer of a Raft node: replication cursor, flush and heartbeat (peer.go)\<close>

text \<open>
  The embedding follows \<^verbatim>\<open>peer.go\<close>. Go's \<^verbatim>\<open>uint64\<close> is a 64-bit word, a pointer that
  may be nil is an \<open>option\<close>, Go's \<^verbatim>\<open>error\<close> (nil when there is none) is an
  \<open>error option\<close>, and \<^verbatim>\<open>panic\<close> is a constructor of the result type. The peer mutates
  its own \<^verbatim>\<open>prevLogIndex\<close> and writes to two channels of the server; both are carried in
  an explicit state, together with the list of requests handed to the transport.
\<close>

type_synonym uint64 = "64 word"

subsection \<open>Values read by the peer\<close>

text \<open>
  The request and response types are declared outside \<^verbatim>\<open>peer.go\<close>; the records hold the
  fields that \<^verbatim>\<open>peer.go\<close> reads (\<^verbatim>\<open>Entries\<close>, \<^verbatim>\<open>Index\<close>, \<^verbatim>\<open>LastIndex\<close>, \<^verbatim>\<open>Term\<close>,
  \<^verbatim>\<open>Success\<close>, \<^verbatim>\<open>CommitIndex\<close>).
\<close>

record LogEntry =
  Index :: uint64

record AppendEntriesRequest =
  Entries :: "LogEntry list"

record AppendEntriesResponse =
  Term :: uint64
  Success :: bool
  CommitIndex :: uint64

record SnapshotRequest =
  LastIndex :: uint64

text \<open>\<^verbatim>\<open>SnapshotResponse\<close> has the fields \<^verbatim>\<open>Term\<close> and \<^verbatim>\<open>Success\<close> too; they are prefixed
  here because two records of one theory cannot share a field name.\<close>

record SnapshotResponse =
  SnapTerm :: uint64
  SnapSuccess :: bool

text \<open>The three errors \<^verbatim>\<open>peer.go\<close> creates with \<^verbatim>\<open>errors.New\<close>, and whatever error the
  transport hands back with a snapshot response.\<close>

datatype error =
    RequestRequired     \<comment> \<open>\<^verbatim>\<open>"raft.Peer: Request required"\<close>\<close>
  | NetworkProblem      \<comment> \<open>\<^verbatim>\<open>"Network problem"\<close>\<close>
  | StepDown            \<comment> \<open>\<^verbatim>\<open>"Step down"\<close>\<close>
  | TransportError string

subsection \<open>Peer, flush response and state\<close>

text \<open>\<^verbatim>\<open>type Peer struct\<close>: the fields \<^verbatim>\<open>server\<close>, \<^verbatim>\<open>mutex\<close> and \<^verbatim>\<open>heartbeatTimer\<close> are
  references to collaborators; the server and the timer are inputs of the functions below.\<close>

record Peer =
  name :: string
  prevLogIndex :: uint64

text \<open>\<^verbatim>\<open>type FlushResponse struct\<close>; the pointer \<^verbatim>\<open>peer\<close> is the name of the peer it points to.\<close>

record FlushResponse =
  fterm :: uint64
  fsuccess :: bool
  ferr :: "error option"
  fpeer :: string

text \<open>What one call of the transport was given.\<close>

datatype call =
    AppendEntriesCall AppendEntriesRequest
  | SnapshotCall SnapshotRequest

text \<open>
  The state a heartbeat goroutine works on: the peer; the calls made to the transport so
  far; the values sent on \<^verbatim>\<open>p.server.response\<close> so far; and the non-blocking sends tried on
  \<^verbatim>\<open>p.server.stepDown\<close> so far, each with the term and whether the channel took it.
\<close>

record world =
  peer :: Peer
  transportCalls :: "call list"
  response :: "FlushResponse list"
  stepDown :: "(uint64 \<times> bool) list"

text \<open>
  The server and its transporter are not part of \<^verbatim>\<open>peer.go\<close>; what the peer reads
  from them is a parameter of every function:
  \<^item> \<open>currentTerm\<close>: \<^verbatim>\<open>p.server.currentTerm\<close>;
  \<^item> \<open>logCommitIndex\<close>: \<^verbatim>\<open>p.server.log.CommitIndex()\<close>;
  \<^item> \<open>createAppendEntriesRequest\<close>, \<open>createSnapshotRequest\<close>: the requests the server
    builds (nil is \<open>None\<close>);
  \<^item> \<open>SendAppendEntriesRequest\<close>: the response of the transporter (its error is dropped
    by the caller, \<^verbatim>\<open>tranResp, _ :=\<close>);
  \<^item> \<open>timeoutFirst\<close>: whether the goroutine waiting for \<^verbatim>\<open>heartbeatTimeout\<close> writes to
    \<^verbatim>\<open>respChan\<close> before the goroutine calling the transporter does;
  \<^item> \<open>SendSnapshotRequest\<close>: response and error of the transporter;
  \<^item> \<open>stepDownReady\<close>: whether a send on \<^verbatim>\<open>p.server.stepDown\<close> can proceed at once.
\<close>

record Server =
  currentTerm :: uint64
  logCommitIndex :: uint64
  createAppendEntriesRequest :: "uint64 \<Rightarrow> AppendEntriesRequest option"
  createSnapshotRequest :: "SnapshotRequest option"
  SendAppendEntriesRequest :: "AppendEntriesRequest \<Rightarrow> AppendEntriesResponse option"
  timeoutFirst :: bool
  SendSnapshotRequest :: "SnapshotRequest \<Rightarrow> SnapshotResponse option \<times> error option"
  stepDownReady :: bool

text \<open>A function of \<^verbatim>\<open>peer.go\<close> returns its values or panics with a snapshot response.\<close>

datatype 'a outcome =
    Return 'a
  | Panic SnapshotResponse

type_synonym triple = "uint64 \<times> bool \<times> error option"

subsection \<open>Copying\<close>

definition clone :: "Peer \<Rightarrow> Peer" where
  "clone p = \<lparr>name = name p, prevLogIndex = prevLogIndex p\<rparr>"

subsection \<open>Flush\<close>

text \<open>\<^verbatim>\<open>func (p *Peer) sendSnapshotRequest(req *SnapshotRequest) (uint64, bool, error)\<close>\<close>

definition sendSnapshotRequest ::
  "Server \<Rightarrow> SnapshotRequest option \<Rightarrow> world \<Rightarrow> triple outcome \<times> world" where
  "sendSnapshotRequest srv req w =
     (case req of
        None \<Rightarrow> (Return (0, False, Some RequestRequired), w)
      | Some r \<Rightarrow>
          (let w1 = w\<lparr>transportCalls := transportCalls w @ [SnapshotCall r]\<rparr>;
               resp = fst (SendSnapshotRequest srv r);
               err = snd (SendSnapshotRequest srv r)
           in case resp of
                None \<Rightarrow> (Return (0, False, err), w1)
              | Some rp \<Rightarrow>
                  if SnapSuccess rp
                  then (Return (SnapTerm rp, SnapSuccess rp, err),
                        w1\<lparr>peer := (peer w1)\<lparr>prevLogIndex := LastIndex r\<rparr>\<rparr>)
                  else (Panic rp, w1)))"

text \<open>
  The value read from \<^verbatim>\<open>respChan\<close>: the channel has room for both writers, and the first
  value written is the one received, nil when it is the timeout's.
\<close>

definition received :: "Server \<Rightarrow> AppendEntriesRequest \<Rightarrow> AppendEntriesResponse option" where
  "received srv r = (if timeoutFirst srv then None else SendAppendEntriesRequest srv r)"

text \<open>\<^verbatim>\<open>func (p *Peer) sendFlushRequest(req *AppendEntriesRequest) (uint64, bool, error)\<close>.
  \<^verbatim>\<open>req.Entries[len(req.Entries)-1]\<close> is read under \<^verbatim>\<open>len(req.Entries) > 0\<close> only, and
  \<^verbatim>\<open>p.prevLogIndex--\<close> under \<^verbatim>\<open>p.prevLogIndex > 0\<close> only.\<close>

definition sendFlushRequest ::
  "Server \<Rightarrow> AppendEntriesRequest option \<Rightarrow> world \<Rightarrow> triple \<times> world" where
  "sendFlushRequest srv req w =
     (case req of
        None \<Rightarrow> ((0, False, Some RequestRequired), w)
      | Some r \<Rightarrow>
          (let w1 = w\<lparr>transportCalls := transportCalls w @ [AppendEntriesCall r]\<rparr>
           in case received srv r of
                None \<Rightarrow> ((0, False, Some NetworkProblem), w1)
              | Some resp \<Rightarrow>
                  if Success resp then
                    (if length (Entries r) > 0
                     then ((Term resp, Success resp, None),
                           w1\<lparr>peer := (peer w1)\<lparr>prevLogIndex := Index (last (Entries r))\<rparr>\<rparr>)
                     else ((Term resp, Success resp, None), w1))
                  else if Term resp > currentTerm srv then
                    ((Term resp, False, Some StepDown), w1)
                  else if CommitIndex resp > prevLogIndex (peer w1) then
                    ((Term resp, Success resp, None),
                     w1\<lparr>peer := (peer w1)\<lparr>prevLogIndex := CommitIndex resp\<rparr>\<rparr>)
                  else if prevLogIndex (peer w1) > 0 then
                    ((Term resp, Success resp, None),
                     w1\<lparr>peer := (peer w1)\<lparr>prevLogIndex := prevLogIndex (peer w1) - 1\<rparr>\<rparr>)
                  else ((Term resp, Success resp, None), w1)))"

text \<open>\<^verbatim>\<open>func (p *Peer) flush() (uint64, bool, error)\<close>\<close>

definition flush :: "Server \<Rightarrow> world \<Rightarrow> triple outcome \<times> world" where
  "flush srv w =
     (case createAppendEntriesRequest srv (prevLogIndex (peer w)) of
        Some req \<Rightarrow>
          (Return (fst (sendFlushRequest srv (Some req) w)), snd (sendFlushRequest srv (Some req) w))
      | None \<Rightarrow> sendSnapshotRequest srv (createSnapshotRequest srv) w)"

subsection \<open>Heartbeat\<close>

text \<open>
  One turn of the \<^verbatim>\<open>for\<close> loop of \<^verbatim>\<open>heartbeat\<close> gets what \<^verbatim>\<open>p.heartbeatTimer.Start()\<close>
  returns (true when the timer fired, false when it was stopped) and the server as it is
  during that turn.
\<close>

record tick =
  timerStart :: bool
  server :: Server

text \<open>How one turn of the loop ends: the loop goes round again, the function returns, or
  the goroutine panics.\<close>

datatype turn =
    Continue world
  | Exit world
  | Crash SnapshotResponse world

text \<open>The body of the \<^verbatim>\<open>for\<close> loop. The send \<^verbatim>\<open>p.server.response <- f\<close> is recorded in
  \<open>response\<close>; the \<^verbatim>\<open>select\<close> with a \<^verbatim>\<open>default\<close> branch is recorded in \<open>stepDown\<close> with
  whether the channel took the term, and returns in both branches.\<close>

definition heartbeatTurn :: "tick \<Rightarrow> world \<Rightarrow> turn" where
  "heartbeatTurn t w =
     (if timerStart t then
        (case flush (server t) w of
           (Panic rp, w1) \<Rightarrow> Crash rp w1
         | (Return (tm, ok, er), w1) \<Rightarrow>
             (let f = \<lparr>fterm = tm, fsuccess = ok, ferr = er, fpeer = name (peer w1)\<rparr>
              in if ok then
                   (if prevLogIndex (peer w1) > logCommitIndex (server t)
                    then Continue (w1\<lparr>response := response w1 @ [f]\<rparr>)
                    else Continue w1)
                 else if tm > currentTerm (server t)
                   then Exit (w1\<lparr>stepDown := stepDown w1 @ [(tm, stepDownReady (server t))]\<rparr>)
                   else Continue w1))
      else Exit w)"

text \<open>How the loop stands after a finite run of turns: it has returned, it has panicked,
  or it is at \<^verbatim>\<open>p.heartbeatTimer.Start()\<close> again, waiting.\<close>

datatype loop =
    Returned world
  | Panicked SnapshotResponse world
  | AtTimer world

text \<open>\<^verbatim>\<open>func (p *Peer) heartbeat()\<close>: the loop, run on the turns the environment supplies.\<close>

fun heartbeat :: "tick list \<Rightarrow> world \<Rightarrow> loop" where
  "heartbeat [] w = AtTimer w"
| "heartbeat (t # ts) w =
     (case heartbeatTurn t w of
        Continue w1 \<Rightarrow> heartbeat ts w1
      | Exit w1 \<Rightarrow> Returned w1
      | Crash rp w1 \<Rightarrow> Panicked rp w1)"

text \<open>The state in which a turn of the loop ends.\<close>

definition worldOf :: "turn \<Rightarrow> world" where
  "worldOf u = (case u of Continue w \<Rightarrow> w | Exit w \<Rightarrow> w | Crash rp w \<Rightarrow> w)"

subsection \<open>Runs of flushes\<close>

text \<open>A call of \<open>sendFlushRequest\<close> is successful when the response received is not nil and
  has \<^verbatim>\<open>Success == true\<close>.\<close>

definition successful :: "Server \<times> AppendEntriesRequest \<Rightarrow> bool" where
  "successful s = (case received (fst s) (snd s) of None \<Rightarrow> False | Some resp \<Rightarrow> Success resp)"

text \<open>
  Modelled from the spec: \<^verbatim>\<open>createAppendEntriesRequest\<close> is a method of the server and is
  not part of \<^verbatim>\<open>peer.go\<close>. The spec (4.2, step 1, and the data model) has the node build
  the request for the peer's current \<^verbatim>\<open>prevLogIndex\<close>, from the entries the peer still
  needs, so that a success extends the peer's progress: no entry of the request built for
  the cursor \<open>i\<close> has an index below \<open>i\<close>. A server that builds no request for \<open>i\<close> meets
  this.
\<close>

definition buildsFromCursor :: "Server \<Rightarrow> uint64 \<Rightarrow> bool" where
  "buildsFromCursor srv i =
     (case createAppendEntriesRequest srv i of
        None \<Rightarrow> True
      | Some r \<Rightarrow> list_all (\<lambda>e. i \<le> Index e) (Entries r))"

text \<open>
  A run of flushes is the list of the servers as they are at each call of \<open>flush\<close>, in
  order. \<open>flushCursors\<close> lists the value of \<^verbatim>\<open>prevLogIndex\<close> after each flush of the run.
\<close>

fun flushCursors :: "Server list \<Rightarrow> world \<Rightarrow> uint64 list" where
  "flushCursors [] w = []"
| "flushCursors (srv # rest) w =
     prevLogIndex (peer (snd (flush srv w))) # flushCursors rest (snd (flush srv w))"

text \<open>Every flush of the run is a successful AppendEntries flush: the server builds a
  request for the peer's cursor, as the spec has it, and the call of \<open>sendFlushRequest\<close> on
  that request is successful.\<close>

fun appendRun :: "Server list \<Rightarrow> world \<Rightarrow> bool" where
  "appendRun [] w = True"
| "appendRun (srv # rest) w =
     (buildsFromCursor srv (prevLogIndex (peer w)) \<and>
      (case createAppendEntriesRequest srv (prevLogIndex (peer w)) of
         None \<Rightarrow> False
       | Some r \<Rightarrow> successful (srv, r)) \<and>
      appendRun rest (snd (flush srv w)))"

subsection \<open>Concrete inputs\<close>

text \<open>A peer named \<open>peer1\<close> whose cursor stands at 5, with nothing sent so far.\<close>

definition examplePeer :: world where
  "examplePeer = \<lparr>peer = \<lparr>name = ''peer1'', prevLogIndex = 5\<rparr>, transportCalls = [],
     response = [], stepDown = []\<rparr>"

text \<open>A server at term \<open>ct\<close> with commit index \<open>ci\<close> that builds the AppendEntries request
  \<open>req\<close> for every cursor and whose transporter answers \<open>resp\<close>; \<open>tmo\<close> says whether the
  timeout comes first. Its step-down channel has room.\<close>

definition appendNode ::
  "uint64 \<Rightarrow> uint64 \<Rightarrow> AppendEntriesRequest option \<Rightarrow> AppendEntriesResponse option \<Rightarrow> bool
     \<Rightarrow> Server" where
  "appendNode ct ci req resp tmo =
     \<lparr>currentTerm = ct, logCommitIndex = ci,
      createAppendEntriesRequest = (\<lambda>i. req), createSnapshotRequest = None,
      SendAppendEntriesRequest = (\<lambda>r. resp), timeoutFirst = tmo,
      SendSnapshotRequest = (\<lambda>r. (None, None)), stepDownReady = True\<rparr>"

text \<open>A server that has no AppendEntries request to build, offers the snapshot request
  \<open>req\<close>, and whose transporter answers \<open>resp\<close> with the error \<open>er\<close>. Its step-down channel
  is full.\<close>

definition snapshotNode ::
  "uint64 \<Rightarrow> uint64 \<Rightarrow> SnapshotRequest option \<Rightarrow> SnapshotResponse option \<Rightarrow> error option
     \<Rightarrow> Server" where
  "snapshotNode ct ci req resp er =
     \<lparr>currentTerm = ct, logCommitIndex = ci,
      createAppendEntriesRequest = (\<lambda>i. None), createSnapshotRequest = req,
      SendAppendEntriesRequest = (\<lambda>r. None), timeoutFirst = False,
      SendSnapshotRequest = (\<lambda>r. (resp, er)), stepDownReady = False\<rparr>"

text \<open>A server at term 3 that builds the request \<open>req\<close> and whose transporter answers every
  AppendEntries request with success.\<close>

definition okNode :: "AppendEntriesRequest \<Rightarrow> Server" where
  "okNode req =
     appendNode 3 0 (Some req) (Some \<lparr>Term = 3, Success = True, CommitIndex = 0\<rparr>) False"

section \<open>Properties\<close>

subsection \<open>Auxiliary facts\<close>

lemma flush_keeps_channels:
  "response (snd (flush srv w)) = response w \<and> stepDown (snd (flush srv w)) = stepDown w"
  by (simp add: flush_def sendFlushRequest_def sendSnapshotRequest_def Let_def
      split: option.splits)

lemma unat_pred: "(0::uint64) < p \<Longrightarrow> Suc (unat (p - 1)) = unat p"
  by (metis unat_minus_one Suc_pred' unat_gt_0 word_gt_0)

lemma pred_not_above: "(0::uint64) < p \<Longrightarrow> \<not> p < p - 1"
  using unat_pred [of p] by (simp add: word_less_nat_alt)

lemma successful_cursor:
  assumes "successful (srv, r)"
  shows "prevLogIndex (peer (snd (sendFlushRequest srv (Some r) w)))
           = (if Entries r = [] then prevLogIndex (peer w) else Index (last (Entries r)))"
  using assms
  by (auto simp add: successful_def sendFlushRequest_def Let_def split: option.splits)

lemma successful_flush:
  assumes "createAppendEntriesRequest srv (prevLogIndex (peer w)) = Some r"
    and "successful (srv, r)"
  shows "prevLogIndex (peer (snd (flush srv w)))
           = (if Entries r = [] then prevLogIndex (peer w) else Index (last (Entries r)))"
  using assms successful_cursor [OF assms(2), of w] by (simp add: flush_def)

lemma appendRun_step:
  assumes "appendRun (srv # rest) w"
  shows "prevLogIndex (peer w) \<le> prevLogIndex (peer (snd (flush srv w)))"
proof -
  obtain r where r: "createAppendEntriesRequest srv (prevLogIndex (peer w)) = Some r"
    and ok: "successful (srv, r)"
    using assms by (auto split: option.splits)
  have built: "list_all (\<lambda>e. prevLogIndex (peer w) \<le> Index e) (Entries r)"
    using assms r by (simp add: buildsFromCursor_def)
  show ?thesis
  proof (cases "Entries r = []")
    case True
    then show ?thesis using successful_flush [OF r ok] by simp
  next
    case False
    then have "last (Entries r) \<in> set (Entries r)" by simp
    then have "prevLogIndex (peer w) \<le> Index (last (Entries r))"
      using built by (simp add: list_all_iff)
    then show ?thesis using successful_flush [OF r ok] False by simp
  qed
qed

lemma sorted_flushCursors:
  assumes "appendRun run w"
  shows "sorted (prevLogIndex (peer w) # flushCursors run w)"
  using assms
proof (induction run arbitrary: w)
  case Nil
  then show ?case by simp
next
  case (Cons srv rest)
  let ?w1 = "snd (flush srv w)"
  have step: "prevLogIndex (peer w) \<le> prevLogIndex (peer ?w1)"
    using appendRun_step [OF Cons.prems] .
  have tail: "sorted (prevLogIndex (peer ?w1) # flushCursors rest ?w1)"
    using Cons.IH [of ?w1] Cons.prems by simp
  have "sorted (prevLogIndex (peer w) # flushCursors (srv # rest) w)
          = (prevLogIndex (peer w) \<le> prevLogIndex (peer ?w1) \<and>
             sorted (prevLogIndex (peer ?w1) # flushCursors rest ?w1))"
    by (simp del: sorted_wrt.simps add: sorted2)
  then show ?case using step tail by simp
qed

subsection \<open>The nil-request guard\<close>

text \<open>
  C6: Called with a nil request, \<open>sendFlushRequest\<close> and \<open>sendSnapshotRequest\<close> both return
  \<open>(0, false, "request required")\<close>, and the state they return is the state they were
  given: no call has been added to the transport's list and the peer is as it was.
\<close>

theorem nil_request_guard:
  "sendFlushRequest srv None w = ((0, False, Some RequestRequired), w) \<and>
   sendSnapshotRequest srv None w = (Return (0, False, Some RequestRequired), w)"
  by (simp add: sendFlushRequest_def sendSnapshotRequest_def)

subsection \<open>A failed AppendEntries response at a term that is not newer\<close>

text \<open>
  C10: When the response received is not nil, has \<open>Success = false\<close> and a \<open>Term\<close> that is at
  most the server's current term, \<open>sendFlushRequest\<close> returns \<open>(resp.Term, false, nil)\<close>:
  the flag is false and the error is nil.
\<close>

theorem mismatch_returns_nil_error:
  assumes "received srv r = Some resp" and "\<not> Success resp" and "Term resp \<le> currentTerm srv"
  shows "fst (sendFlushRequest srv (Some r) w) = (Term resp, False, None)"
  using assms(1,2) leD [OF assms(3)] by (simp add: sendFlushRequest_def Let_def)

theorem mismatch_returns_nil_error_witness:
  "received (appendNode 3 0 None (Some \<lparr>Term = 3, Success = False, CommitIndex = 0\<rparr>) False)
            \<lparr>Entries = []\<rparr> = Some \<lparr>Term = 3, Success = False, CommitIndex = 0\<rparr> \<and>
   fst (sendFlushRequest
          (appendNode 3 0 None (Some \<lparr>Term = 3, Success = False, CommitIndex = 0\<rparr>) False)
          (Some \<lparr>Entries = []\<rparr>) examplePeer) = (3, False, None)"
  using mismatch_returns_nil_error
    [of "appendNode 3 0 None (Some \<lparr>Term = 3, Success = False, CommitIndex = 0\<rparr>) False"
        "\<lparr>Entries = []\<rparr>" "\<lparr>Term = 3, Success = False, CommitIndex = 0\<rparr>" examplePeer]
  by (simp add: received_def appendNode_def)

text \<open>
  C3: When the response received is not nil, has \<open>Success = false\<close> and a \<open>Term\<close> that is at
  most the server's current term, then: if its \<open>CommitIndex\<close> is above \<open>prevLogIndex\<close>, the
  new \<open>prevLogIndex\<close> is that \<open>CommitIndex\<close>; otherwise, if \<open>prevLogIndex\<close> is above 0, the new
  \<open>prevLogIndex\<close> is one less, without wrapping around; and if \<open>prevLogIndex\<close> is 0 it
  stays 0.
\<close>

theorem failed_response_backoff:
  assumes "received srv r = Some resp" and "\<not> Success resp" and "Term resp \<le> currentTerm srv"
  shows "(prevLogIndex (peer w) < CommitIndex resp \<longrightarrow>
            prevLogIndex (peer (snd (sendFlushRequest srv (Some r) w))) = CommitIndex resp) \<and>
         (\<not> prevLogIndex (peer w) < CommitIndex resp \<and> 0 < prevLogIndex (peer w) \<longrightarrow>
            prevLogIndex (peer (snd (sendFlushRequest srv (Some r) w))) = prevLogIndex (peer w) - 1 \<and>
            unat (prevLogIndex (peer (snd (sendFlushRequest srv (Some r) w)))) + 1
              = unat (prevLogIndex (peer w))) \<and>
         (\<not> prevLogIndex (peer w) < CommitIndex resp \<and> prevLogIndex (peer w) = 0 \<longrightarrow>
            prevLogIndex (peer (snd (sendFlushRequest srv (Some r) w))) = 0)"
  using assms(1,2) leD [OF assms(3)]
  by (auto simp add: sendFlushRequest_def Let_def unat_pred)

theorem failed_response_backoff_witness:
  "received (appendNode 3 0 None (Some \<lparr>Term = 3, Success = False, CommitIndex = 0\<rparr>) False)
            \<lparr>Entries = []\<rparr> = Some \<lparr>Term = 3, Success = False, CommitIndex = 0\<rparr> \<and>
   \<not> Success \<lparr>Term = 3, Success = False, CommitIndex = 0\<rparr> \<and>
   Term \<lparr>Term = 3, Success = False, CommitIndex = 0\<rparr> \<le> (3 :: uint64) \<and>
   \<not> prevLogIndex (peer examplePeer) < (0 :: uint64) \<and> 0 < prevLogIndex (peer examplePeer) \<and>
   prevLogIndex (peer (snd (sendFlushRequest
      (appendNode 3 0 None (Some \<lparr>Term = 3, Success = False, CommitIndex = 0\<rparr>) False)
      (Some \<lparr>Entries = []\<rparr>) examplePeer))) = 4 \<and>
   prevLogIndex (peer examplePeer) < (9 :: uint64) \<and>
   prevLogIndex (peer (snd (sendFlushRequest
      (appendNode 3 0 None (Some \<lparr>Term = 2, Success = False, CommitIndex = 9\<rparr>) False)
      (Some \<lparr>Entries = []\<rparr>) examplePeer))) = 9"
  using failed_response_backoff
    [of "appendNode 3 0 None (Some \<lparr>Term = 3, Success = False, CommitIndex = 0\<rparr>) False"
        "\<lparr>Entries = []\<rparr>" "\<lparr>Term = 3, Success = False, CommitIndex = 0\<rparr>" examplePeer]
    failed_response_backoff
    [of "appendNode 3 0 None (Some \<lparr>Term = 2, Success = False, CommitIndex = 9\<rparr>) False"
        "\<lparr>Entries = []\<rparr>" "\<lparr>Term = 2, Success = False, CommitIndex = 9\<rparr>" examplePeer]
  by (simp add: received_def appendNode_def examplePeer_def)

subsection \<open>An unsuccessful snapshot response\<close>

text \<open>
  C1: The claim has \<open>sendSnapshotRequest\<close> return \<open>(term, false, err)\<close>, without a panic, for
  every response that is not nil and has \<open>Success = false\<close>, as the comment above the
  branch in \<^verbatim>\<open>peer.go\<close> says (an unsuccessful response is tried again next time) and as
  the nil response and the failure branch of \<open>sendFlushRequest\<close> do. The code does not: for
  a peer at 5, the snapshot request with last index 7 and the response with term 3 and
  \<open>Success = false\<close>, it panics with the response instead of returning \<open>(3, false, nil)\<close>,
  and the panic ends the heartbeat loop.
\<close>

theorem snapshot_failure_at_input:
  "fst (sendSnapshotRequest
          (snapshotNode 3 0 (Some \<lparr>LastIndex = 7\<rparr>) (Some \<lparr>SnapTerm = 3, SnapSuccess = False\<rparr>) None)
          (Some \<lparr>LastIndex = 7\<rparr>) examplePeer)
     = Panic \<lparr>SnapTerm = 3, SnapSuccess = False\<rparr> \<and>
   fst (sendSnapshotRequest
          (snapshotNode 3 0 (Some \<lparr>LastIndex = 7\<rparr>) (Some \<lparr>SnapTerm = 3, SnapSuccess = False\<rparr>) None)
          (Some \<lparr>LastIndex = 7\<rparr>) examplePeer)
     \<noteq> Return (3, False, None) \<and>
   heartbeat [\<lparr>timerStart = True, server =
       snapshotNode 3 0 (Some \<lparr>LastIndex = 7\<rparr>) (Some \<lparr>SnapTerm = 3, SnapSuccess = False\<rparr>) None\<rparr>]
     examplePeer
    = Panicked \<lparr>SnapTerm = 3, SnapSuccess = False\<rparr>
        (examplePeer\<lparr>transportCalls := [SnapshotCall \<lparr>LastIndex = 7\<rparr>]\<rparr>)"
  by (simp add: sendSnapshotRequest_def snapshotNode_def examplePeer_def flush_def
      heartbeatTurn_def Let_def)

subsection \<open>A response from a newer term\<close>

text \<open>
  C4: When the response received is not nil, has \<open>Success = false\<close> and a \<open>Term\<close> above the
  server's current term, \<open>sendFlushRequest\<close> returns \<open>(resp.Term, false, "step down")\<close> and
  leaves the peer, \<open>prevLogIndex\<close> included, as it was. A heartbeat loop whose timer fires
  and whose flush takes this path returns in that turn, whatever turns would follow,
  after exactly one non-blocking send of the term on the step-down channel, whether the
  channel takes the term or not.
\<close>

theorem step_down_short_circuit:
  assumes "received srv r = Some resp" and "\<not> Success resp" and "currentTerm srv < Term resp"
  shows "sendFlushRequest srv (Some r) w
           = ((Term resp, False, Some StepDown),
              w\<lparr>transportCalls := transportCalls w @ [AppendEntriesCall r]\<rparr>) \<and>
         peer (snd (sendFlushRequest srv (Some r) w)) = peer w \<and>
         (\<forall>t ts. timerStart t \<and> server t = srv \<and>
                 createAppendEntriesRequest srv (prevLogIndex (peer w)) = Some r \<longrightarrow>
            heartbeat (t # ts) w
              = Returned (w\<lparr>transportCalls := transportCalls w @ [AppendEntriesCall r],
                            stepDown := stepDown w @ [(Term resp, stepDownReady srv)]\<rparr>))"
  using assms
  by (simp add: sendFlushRequest_def Let_def flush_def heartbeatTurn_def)

theorem step_down_short_circuit_witness:
  "received (appendNode 3 0 (Some \<lparr>Entries = []\<rparr>)
               (Some \<lparr>Term = 4, Success = False, CommitIndex = 0\<rparr>) False) \<lparr>Entries = []\<rparr>
     = Some \<lparr>Term = 4, Success = False, CommitIndex = 0\<rparr> \<and>
   currentTerm (appendNode 3 0 (Some \<lparr>Entries = []\<rparr>)
               (Some \<lparr>Term = 4, Success = False, CommitIndex = 0\<rparr>) False)
     < Term \<lparr>Term = 4, Success = False, CommitIndex = 0\<rparr> \<and>
   sendFlushRequest (appendNode 3 0 (Some \<lparr>Entries = []\<rparr>)
               (Some \<lparr>Term = 4, Success = False, CommitIndex = 0\<rparr>) False)
       (Some \<lparr>Entries = []\<rparr>) examplePeer
     = ((4, False, Some StepDown),
        examplePeer\<lparr>transportCalls := [AppendEntriesCall \<lparr>Entries = []\<rparr>]\<rparr>) \<and>
   heartbeat
       [\<lparr>timerStart = True, server = appendNode 3 0 (Some \<lparr>Entries = []\<rparr>)
               (Some \<lparr>Term = 4, Success = False, CommitIndex = 0\<rparr>) False\<rparr>,
        \<lparr>timerStart = True, server = appendNode 3 0 (Some \<lparr>Entries = []\<rparr>)
               (Some \<lparr>Term = 4, Success = False, CommitIndex = 0\<rparr>) False\<rparr>]
       examplePeer
     = Returned (examplePeer\<lparr>transportCalls := [AppendEntriesCall \<lparr>Entries = []\<rparr>],
                              stepDown := [(4, True)]\<rparr>)"
  using step_down_short_circuit
    [of "appendNode 3 0 (Some \<lparr>Entries = []\<rparr>)
               (Some \<lparr>Term = 4, Success = False, CommitIndex = 0\<rparr>) False"
        "\<lparr>Entries = []\<rparr>" "\<lparr>Term = 4, Success = False, CommitIndex = 0\<rparr>" examplePeer]
  by (simp add: received_def appendNode_def examplePeer_def)

subsection \<open>No response\<close>

text \<open>
  C5: When the timeout comes first or the transporter delivers nil, \<open>sendFlushRequest\<close>
  returns \<open>(0, false, "network problem")\<close>, the peer (\<open>prevLogIndex\<close> included) and the
  two channels are as they were, and the only change of the state is the call recorded
  for the transport. A heartbeat loop whose timer fires and whose flush takes this path
  does not return: it goes on with the turns that follow.
\<close>


theorem no_response_absorbed:
  assumes "timeoutFirst srv \<or> SendAppendEntriesRequest srv r = None"
  shows "sendFlushRequest srv (Some r) w
           = ((0, False, Some NetworkProblem),
              w\<lparr>transportCalls := transportCalls w @ [AppendEntriesCall r]\<rparr>) \<and>
         peer (snd (sendFlushRequest srv (Some r) w)) = peer w \<and>
         (\<forall>t ts. timerStart t \<and> server t = srv \<and>
                 createAppendEntriesRequest srv (prevLogIndex (peer w)) = Some r \<longrightarrow>
            heartbeatTurn t w
              = Continue (w\<lparr>transportCalls := transportCalls w @ [AppendEntriesCall r]\<rparr>) \<and>
            heartbeat (t # ts) w
              = heartbeat ts (w\<lparr>transportCalls := transportCalls w @ [AppendEntriesCall r]\<rparr>))"
proof -
  have none: "received srv r = None"
    using assms by (auto simp add: received_def)
  then show ?thesis
    by (simp add: sendFlushRequest_def Let_def flush_def heartbeatTurn_def)
qed

theorem no_response_absorbed_witness:
  "timeoutFirst (appendNode 3 0 (Some \<lparr>Entries = []\<rparr>)
               (Some \<lparr>Term = 3, Success = True, CommitIndex = 0\<rparr>) True) \<and>
   sendFlushRequest (appendNode 3 0 (Some \<lparr>Entries = []\<rparr>)
               (Some \<lparr>Term = 3, Success = True, CommitIndex = 0\<rparr>) True)
       (Some \<lparr>Entries = []\<rparr>) examplePeer
     = ((0, False, Some NetworkProblem),
        examplePeer\<lparr>transportCalls := [AppendEntriesCall \<lparr>Entries = []\<rparr>]\<rparr>) \<and>
   heartbeat
       [\<lparr>timerStart = True, server = appendNode 3 0 (Some \<lparr>Entries = []\<rparr>)
               (Some \<lparr>Term = 3, Success = True, CommitIndex = 0\<rparr>) True\<rparr>,
        \<lparr>timerStart = False, server = appendNode 3 0 (Some \<lparr>Entries = []\<rparr>)
               (Some \<lparr>Term = 3, Success = True, CommitIndex = 0\<rparr>) True\<rparr>]
       examplePeer
     = heartbeat
       [\<lparr>timerStart = False, server = appendNode 3 0 (Some \<lparr>Entries = []\<rparr>)
               (Some \<lparr>Term = 3, Success = True, CommitIndex = 0\<rparr>) True\<rparr>]
       (examplePeer\<lparr>transportCalls := [AppendEntriesCall \<lparr>Entries = []\<rparr>]\<rparr>)"
  using no_response_absorbed
    [of "appendNode 3 0 (Some \<lparr>Entries = []\<rparr>)
               (Some \<lparr>Term = 3, Success = True, CommitIndex = 0\<rparr>) True"
        "\<lparr>Entries = []\<rparr>" examplePeer]
  by (simp add: appendNode_def examplePeer_def)

subsection \<open>The two paths of a flush\<close>

text \<open>
  C7: A flush takes exactly one of the two send paths. When the server builds an
  AppendEntries request, the flush is \<open>sendFlushRequest\<close> on it and the one call it makes
  to the transport is the AppendEntries call; when the server builds none, the flush is
  \<open>sendSnapshotRequest\<close> on the snapshot request the server offers and the only call it
  can make is the Snapshot call. On a snapshot response with \<open>Success = true\<close> the new
  \<open>prevLogIndex\<close> is the request's \<open>LastIndex\<close>.
\<close>

theorem flush_takes_one_path:
  "(\<forall>req. createAppendEntriesRequest srv (prevLogIndex (peer w)) = Some req \<longrightarrow>
      flush srv w = (Return (fst (sendFlushRequest srv (Some req) w)),
                     snd (sendFlushRequest srv (Some req) w)) \<and>
      transportCalls (snd (flush srv w)) = transportCalls w @ [AppendEntriesCall req]) \<and>
   (createAppendEntriesRequest srv (prevLogIndex (peer w)) = None \<longrightarrow>
      flush srv w = sendSnapshotRequest srv (createSnapshotRequest srv) w \<and>
      transportCalls (snd (flush srv w))
        = transportCalls w @ (case createSnapshotRequest srv of
                                None \<Rightarrow> [] | Some sr \<Rightarrow> [SnapshotCall sr])) \<and>
   (\<forall>sr rp. createAppendEntriesRequest srv (prevLogIndex (peer w)) = None \<and>
      createSnapshotRequest srv = Some sr \<and>
      fst (SendSnapshotRequest srv sr) = Some rp \<and> SnapSuccess rp \<longrightarrow>
        fst (flush srv w) = Return (SnapTerm rp, True, snd (SendSnapshotRequest srv sr)) \<and>
        prevLogIndex (peer (snd (flush srv w))) = LastIndex sr) \<and>
   (\<forall>sr rp. fst (SendSnapshotRequest srv sr) = Some rp \<and> SnapSuccess rp \<longrightarrow>
        prevLogIndex (peer (snd (sendSnapshotRequest srv (Some sr) w))) = LastIndex sr)"
  by (simp add: flush_def sendFlushRequest_def sendSnapshotRequest_def Let_def
      split: option.splits)

theorem flush_takes_one_path_witness:
  "createAppendEntriesRequest
     (snapshotNode 3 0 (Some \<lparr>LastIndex = 7\<rparr>) (Some \<lparr>SnapTerm = 3, SnapSuccess = True\<rparr>) None)
     (prevLogIndex (peer examplePeer)) = None \<and>
   flush (snapshotNode 3 0 (Some \<lparr>LastIndex = 7\<rparr>) (Some \<lparr>SnapTerm = 3, SnapSuccess = True\<rparr>) None)
     examplePeer
     = (Return (3, True, None),
        examplePeer\<lparr>peer := \<lparr>name = ''peer1'', prevLogIndex = 7\<rparr>,
                    transportCalls := [SnapshotCall \<lparr>LastIndex = 7\<rparr>]\<rparr>) \<and>
   createAppendEntriesRequest
     (appendNode 3 0 (Some \<lparr>Entries = [\<lparr>Index = 6\<rparr>, \<lparr>Index = 7\<rparr>]\<rparr>)
        (Some \<lparr>Term = 3, Success = True, CommitIndex = 0\<rparr>) False)
     (prevLogIndex (peer examplePeer)) = Some \<lparr>Entries = [\<lparr>Index = 6\<rparr>, \<lparr>Index = 7\<rparr>]\<rparr> \<and>
   transportCalls (snd (flush
     (appendNode 3 0 (Some \<lparr>Entries = [\<lparr>Index = 6\<rparr>, \<lparr>Index = 7\<rparr>]\<rparr>)
        (Some \<lparr>Term = 3, Success = True, CommitIndex = 0\<rparr>) False) examplePeer))
     = [AppendEntriesCall \<lparr>Entries = [\<lparr>Index = 6\<rparr>, \<lparr>Index = 7\<rparr>]\<rparr>]"
  using flush_takes_one_path
    [of "snapshotNode 3 0 (Some \<lparr>LastIndex = 7\<rparr>) (Some \<lparr>SnapTerm = 3, SnapSuccess = True\<rparr>) None"
        examplePeer]
    flush_takes_one_path
    [of "appendNode 3 0 (Some \<lparr>Entries = [\<lparr>Index = 6\<rparr>, \<lparr>Index = 7\<rparr>]\<rparr>)
        (Some \<lparr>Term = 3, Success = True, CommitIndex = 0\<rparr>) False" examplePeer]
  by (simp add: snapshotNode_def appendNode_def examplePeer_def sendSnapshotRequest_def
      sendFlushRequest_def received_def Let_def)

subsection \<open>Commit notification\<close>

text \<open>
  C9: In a turn of the heartbeat loop whose timer fires and whose flush returns, the
  \<open>FlushResponse\<close> is sent on the server's \<open>response\<close> channel if and only if the flush
  succeeded and the peer's \<open>prevLogIndex\<close> after the flush is above the log's commit
  index; the value sent carries the term, flag and error of the flush and the peer. In
  every other case nothing is sent on that channel, and after every successful flush the
  loop goes on with the turns that follow.
\<close>

theorem commit_notification:
  assumes "timerStart t" and "flush (server t) w = (Return (tm, ok, er), w1)"
  shows "(ok \<and> logCommitIndex (server t) < prevLogIndex (peer w1) \<longrightarrow>
            heartbeatTurn t w
              = Continue (w1\<lparr>response := response w @
                  [\<lparr>fterm = tm, fsuccess = ok, ferr = er, fpeer = name (peer w1)\<rparr>]\<rparr>)) \<and>
         (ok \<and> \<not> logCommitIndex (server t) < prevLogIndex (peer w1) \<longrightarrow>
            heartbeatTurn t w = Continue w1 \<and> response w1 = response w) \<and>
         (\<not> ok \<longrightarrow> response (worldOf (heartbeatTurn t w)) = response w) \<and>
         (response (worldOf (heartbeatTurn t w))
            = response w @ [\<lparr>fterm = tm, fsuccess = ok, ferr = er, fpeer = name (peer w1)\<rparr>])
           = (ok \<and> logCommitIndex (server t) < prevLogIndex (peer w1)) \<and>
         (response (worldOf (heartbeatTurn t w)) = response w)
           = (\<not> (ok \<and> logCommitIndex (server t) < prevLogIndex (peer w1))) \<and>
         (\<forall>ts. ok \<longrightarrow>
            heartbeat (t # ts) w
              = heartbeat ts
                  (if logCommitIndex (server t) < prevLogIndex (peer w1)
                   then w1\<lparr>response := response w @
                     [\<lparr>fterm = tm, fsuccess = ok, ferr = er, fpeer = name (peer w1)\<rparr>]\<rparr>
                   else w1))"
proof -
  have keep: "response w1 = response w"
    using flush_keeps_channels [of "server t" w] assms(2) by simp
  show ?thesis
    using assms keep by (simp add: heartbeatTurn_def worldOf_def)
qed


theorem commit_notification_witness:
  "timerStart \<lparr>timerStart = True, server =
       appendNode 3 0 (Some \<lparr>Entries = [\<lparr>Index = 6\<rparr>, \<lparr>Index = 7\<rparr>]\<rparr>)
         (Some \<lparr>Term = 3, Success = True, CommitIndex = 0\<rparr>) False\<rparr> \<and>
   flush (appendNode 3 0 (Some \<lparr>Entries = [\<lparr>Index = 6\<rparr>, \<lparr>Index = 7\<rparr>]\<rparr>)
         (Some \<lparr>Term = 3, Success = True, CommitIndex = 0\<rparr>) False) examplePeer
     = (Return (3, True, None),
        examplePeer\<lparr>peer := \<lparr>name = ''peer1'', prevLogIndex = 7\<rparr>,
          transportCalls := [AppendEntriesCall \<lparr>Entries = [\<lparr>Index = 6\<rparr>, \<lparr>Index = 7\<rparr>]\<rparr>]\<rparr>) \<and>
   heartbeatTurn \<lparr>timerStart = True, server =
       appendNode 3 0 (Some \<lparr>Entries = [\<lparr>Index = 6\<rparr>, \<lparr>Index = 7\<rparr>]\<rparr>)
         (Some \<lparr>Term = 3, Success = True, CommitIndex = 0\<rparr>) False\<rparr> examplePeer
     = Continue (examplePeer\<lparr>peer := \<lparr>name = ''peer1'', prevLogIndex = 7\<rparr>,
          transportCalls := [AppendEntriesCall \<lparr>Entries = [\<lparr>Index = 6\<rparr>, \<lparr>Index = 7\<rparr>]\<rparr>],
          response := [\<lparr>fterm = 3, fsuccess = True, ferr = None, fpeer = ''peer1''\<rparr>]\<rparr>) \<and>
   flush (appendNode 3 9 (Some \<lparr>Entries = [\<lparr>Index = 6\<rparr>, \<lparr>Index = 7\<rparr>]\<rparr>)
         (Some \<lparr>Term = 3, Success = True, CommitIndex = 0\<rparr>) False) examplePeer
     = (Return (3, True, None),
        examplePeer\<lparr>peer := \<lparr>name = ''peer1'', prevLogIndex = 7\<rparr>,
          transportCalls := [AppendEntriesCall \<lparr>Entries = [\<lparr>Index = 6\<rparr>, \<lparr>Index = 7\<rparr>]\<rparr>]\<rparr>) \<and>
   heartbeatTurn \<lparr>timerStart = True, server =
       appendNode 3 9 (Some \<lparr>Entries = [\<lparr>Index = 6\<rparr>, \<lparr>Index = 7\<rparr>]\<rparr>)
         (Some \<lparr>Term = 3, Success = True, CommitIndex = 0\<rparr>) False\<rparr> examplePeer
     = Continue (examplePeer\<lparr>peer := \<lparr>name = ''peer1'', prevLogIndex = 7\<rparr>,
          transportCalls := [AppendEntriesCall \<lparr>Entries = [\<lparr>Index = 6\<rparr>, \<lparr>Index = 7\<rparr>]\<rparr>]\<rparr>)"
  using commit_notification
    [of "\<lparr>timerStart = True, server =
           appendNode 3 0 (Some \<lparr>Entries = [\<lparr>Index = 6\<rparr>, \<lparr>Index = 7\<rparr>]\<rparr>)
             (Some \<lparr>Term = 3, Success = True, CommitIndex = 0\<rparr>) False\<rparr>"
        examplePeer 3 True None
        "examplePeer\<lparr>peer := \<lparr>name = ''peer1'', prevLogIndex = 7\<rparr>,
          transportCalls := [AppendEntriesCall \<lparr>Entries = [\<lparr>Index = 6\<rparr>, \<lparr>Index = 7\<rparr>]\<rparr>]\<rparr>"]
    commit_notification
    [of "\<lparr>timerStart = True, server =
           appendNode 3 9 (Some \<lparr>Entries = [\<lparr>Index = 6\<rparr>, \<lparr>Index = 7\<rparr>]\<rparr>)
             (Some \<lparr>Term = 3, Success = True, CommitIndex = 0\<rparr>) False\<rparr>"
        examplePeer 3 True None
        "examplePeer\<lparr>peer := \<lparr>name = ''peer1'', prevLogIndex = 7\<rparr>,
          transportCalls := [AppendEntriesCall \<lparr>Entries = [\<lparr>Index = 6\<rparr>, \<lparr>Index = 7\<rparr>]\<rparr>]\<rparr>"]
  by (simp add: appendNode_def examplePeer_def flush_def sendFlushRequest_def received_def
      Let_def)

subsection \<open>Successful AppendEntries flushes\<close>

text \<open>
  C2: After a successful AppendEntries flush (response not nil, \<open>Success = true\<close>) whose
  request carries one or more entries, \<open>prevLogIndex\<close> is the index of the last entry of
  the request; when the request carries no entry, \<open>prevLogIndex\<close> is unchanged; and across
  a run of such flushes, each on the request the server builds for the peer's cursor,
  \<open>prevLogIndex\<close> never decreases.
\<close>

theorem successful_flush_cursor:
  assumes "appendRun run w"
  shows "(\<forall>srv r v. successful (srv, r) \<longrightarrow>
            prevLogIndex (peer (snd (sendFlushRequest srv (Some r) v)))
              = (if length (Entries r) > 0 then Index (last (Entries r))
                 else prevLogIndex (peer v))) \<and>
         (\<forall>srv r v. createAppendEntriesRequest srv (prevLogIndex (peer v)) = Some r \<and>
                    successful (srv, r) \<longrightarrow>
            prevLogIndex (peer (snd (flush srv v)))
              = (if length (Entries r) > 0 then Index (last (Entries r))
                 else prevLogIndex (peer v))) \<and>
         sorted (prevLogIndex (peer w) # flushCursors run w)"
  using sorted_flushCursors [OF assms] by (simp add: successful_cursor successful_flush)

theorem successful_flush_cursor_witness:
  "appendRun
     [okNode \<lparr>Entries = [\<lparr>Index = 6\<rparr>, \<lparr>Index = 7\<rparr>]\<rparr>, okNode \<lparr>Entries = []\<rparr>,
      okNode \<lparr>Entries = [\<lparr>Index = 8\<rparr>]\<rparr>] examplePeer \<and>
   prevLogIndex (peer examplePeer) = 5 \<and>
   flushCursors
     [okNode \<lparr>Entries = [\<lparr>Index = 6\<rparr>, \<lparr>Index = 7\<rparr>]\<rparr>, okNode \<lparr>Entries = []\<rparr>,
      okNode \<lparr>Entries = [\<lparr>Index = 8\<rparr>]\<rparr>] examplePeer = [7, 7, 8] \<and>
   sorted (prevLogIndex (peer examplePeer) # flushCursors
     [okNode \<lparr>Entries = [\<lparr>Index = 6\<rparr>, \<lparr>Index = 7\<rparr>]\<rparr>, okNode \<lparr>Entries = []\<rparr>,
      okNode \<lparr>Entries = [\<lparr>Index = 8\<rparr>]\<rparr>] examplePeer)"
  using successful_flush_cursor
    [of "[okNode \<lparr>Entries = [\<lparr>Index = 6\<rparr>, \<lparr>Index = 7\<rparr>]\<rparr>, okNode \<lparr>Entries = []\<rparr>,
          okNode \<lparr>Entries = [\<lparr>Index = 8\<rparr>]\<rparr>]" examplePeer]
  by (simp add: successful_def buildsFromCursor_def okNode_def appendNode_def received_def
      examplePeer_def flush_def sendFlushRequest_def Let_def)

subsection \<open>Where the cursor moves forward\<close>

text \<open>
  C8, as stated, fails: \<open>prevLogIndex\<close> also moves forward outside the successful
  AppendEntries branch. A failed response with commit index 9 takes it from 5 to 9, and a
  successful snapshot response for a request with last index 7 takes it from 5 to 7.
\<close>

theorem cursor_advances_elsewhere_counterexample:
  "\<not> Success \<lparr>Term = 2, Success = False, CommitIndex = 9\<rparr> \<and>
   prevLogIndex (peer examplePeer) = 5 \<and>
   prevLogIndex (peer (snd (sendFlushRequest
      (appendNode 3 0 None (Some \<lparr>Term = 2, Success = False, CommitIndex = 9\<rparr>) False)
      (Some \<lparr>Entries = []\<rparr>) examplePeer))) = 9 \<and>
   prevLogIndex (peer (snd (sendSnapshotRequest
      (snapshotNode 3 0 (Some \<lparr>LastIndex = 7\<rparr>) (Some \<lparr>SnapTerm = 3, SnapSuccess = True\<rparr>) None)
      (Some \<lparr>LastIndex = 7\<rparr>) examplePeer))) = 7"
  by (simp add: appendNode_def snapshotNode_def received_def examplePeer_def
      sendFlushRequest_def sendSnapshotRequest_def Let_def)

text \<open>
  C8, amended: \<open>prevLogIndex\<close> moves forward in three places only. In \<open>sendFlushRequest\<close> it
  increases only in the successful branch with entries (to the index of the last entry)
  or in the failed branch at a term that is not newer, when the response's commit index
  is above it (to that commit index); in \<open>sendSnapshotRequest\<close> it increases only on a
  successful response (to the request's last index). \<open>clone\<close> copies it, and a turn of the
  heartbeat loop changes the peer through \<open>flush\<close> only.
\<close>

theorem cursor_advances_in_three_places:
  "(prevLogIndex (peer w) < prevLogIndex (peer (snd (sendFlushRequest srv req w))) \<longrightarrow>
      (\<exists>r resp. req = Some r \<and> received srv r = Some resp \<and>
         (Success resp \<and> Entries r \<noteq> [] \<and>
            prevLogIndex (peer (snd (sendFlushRequest srv req w))) = Index (last (Entries r))
          \<or> \<not> Success resp \<and> Term resp \<le> currentTerm srv \<and>
            prevLogIndex (peer w) < CommitIndex resp \<and>
            prevLogIndex (peer (snd (sendFlushRequest srv req w))) = CommitIndex resp))) \<and>
   (prevLogIndex (peer w) < prevLogIndex (peer (snd (sendSnapshotRequest srv sreq w))) \<longrightarrow>
      (\<exists>sr rp. sreq = Some sr \<and> fst (SendSnapshotRequest srv sr) = Some rp \<and> SnapSuccess rp \<and>
         prevLogIndex (peer (snd (sendSnapshotRequest srv sreq w))) = LastIndex sr)) \<and>
   prevLogIndex (clone p) = prevLogIndex p \<and>
   peer (worldOf (heartbeatTurn t w))
     = (if timerStart t then peer (snd (flush (server t) w)) else peer w)"
proof -
  have a: "prevLogIndex (peer w) < prevLogIndex (peer (snd (sendFlushRequest srv req w))) \<longrightarrow>
      (\<exists>r resp. req = Some r \<and> received srv r = Some resp \<and>
         (Success resp \<and> Entries r \<noteq> [] \<and>
            prevLogIndex (peer (snd (sendFlushRequest srv req w))) = Index (last (Entries r))
          \<or> \<not> Success resp \<and> Term resp \<le> currentTerm srv \<and>
            prevLogIndex (peer w) < CommitIndex resp \<and>
            prevLogIndex (peer (snd (sendFlushRequest srv req w))) = CommitIndex resp))"
    by (auto simp add: sendFlushRequest_def Let_def pred_not_above not_less
        split: option.splits if_splits)
  have b: "prevLogIndex (peer w) < prevLogIndex (peer (snd (sendSnapshotRequest srv sreq w))) \<longrightarrow>
      (\<exists>sr rp. sreq = Some sr \<and> fst (SendSnapshotRequest srv sr) = Some rp \<and> SnapSuccess rp \<and>
         prevLogIndex (peer (snd (sendSnapshotRequest srv sreq w))) = LastIndex sr)"
    by (auto simp add: sendSnapshotRequest_def Let_def split: option.splits if_splits)
  have c: "prevLogIndex (clone p) = prevLogIndex p"
    by (simp add: clone_def)
  have d: "peer (worldOf (heartbeatTurn t w))
     = (if timerStart t then peer (snd (flush (server t) w)) else peer w)"
    by (simp add: heartbeatTurn_def worldOf_def Let_def
        split: prod.splits outcome.splits)
  from a b c d show ?thesis by blast
qed

theorem cursor_advances_in_three_places_witness:
  "prevLogIndex (peer examplePeer)
     < prevLogIndex (peer (snd (sendFlushRequest
         (appendNode 3 0 None (Some \<lparr>Term = 2, Success = False, CommitIndex = 9\<rparr>) False)
         (Some \<lparr>Entries = []\<rparr>) examplePeer))) \<and>
   received (appendNode 3 0 None (Some \<lparr>Term = 2, Success = False, CommitIndex = 9\<rparr>) False)
       \<lparr>Entries = []\<rparr> = Some \<lparr>Term = 2, Success = False, CommitIndex = 9\<rparr> \<and>
   prevLogIndex (peer (snd (sendFlushRequest
         (appendNode 3 0 None (Some \<lparr>Term = 2, Success = False, CommitIndex = 9\<rparr>) False)
         (Some \<lparr>Entries = []\<rparr>) examplePeer)))
     = CommitIndex \<lparr>Term = 2, Success = False, CommitIndex = 9\<rparr> \<and>
   prevLogIndex (peer examplePeer)
     < prevLogIndex (peer (snd (sendSnapshotRequest
         (snapshotNode 3 0 (Some \<lparr>LastIndex = 7\<rparr>) (Some \<lparr>SnapTerm = 3, SnapSuccess = True\<rparr>) None)
         (Some \<lparr>LastIndex = 7\<rparr>) examplePeer))) \<and>
   prevLogIndex (peer (snd (sendSnapshotRequest
         (snapshotNode 3 0 (Some \<lparr>LastIndex = 7\<rparr>) (Some \<lparr>SnapTerm = 3, SnapSuccess = True\<rparr>) None)
         (Some \<lparr>LastIndex = 7\<rparr>) examplePeer))) = LastIndex \<lparr>LastIndex = 7\<rparr>"
  using cursor_advances_in_three_places
    [where w = examplePeer and req = "Some \<lparr>Entries = []\<rparr>" and
       srv = "appendNode 3 0 None (Some \<lparr>Term = 2, Success = False, CommitIndex = 9\<rparr>) False"]
    cursor_advances_in_three_places
    [where w = examplePeer and sreq = "Some \<lparr>LastIndex = 7\<rparr>" and
       srv = "snapshotNode 3 0 (Some \<lparr>LastIndex = 7\<rparr>)
                (Some \<lparr>SnapTerm = 3, SnapSuccess = True\<rparr>) None"]
  by (simp add: appendNode_def snapshotNode_def received_def examplePeer_def
      sendFlushRequest_def sendSnapshotRequest_def Let_def)

end
